theory Spec2Isabelle
  imports Complex_Main "HOL-Library.Word"
begin

section \<open>JavaScript values\<close>

text \<open>
  The dashboard is TypeScript. A number that takes part in the payroll arithmetic is
  modelled as \<open>rat option\<close>: \<open>Some q\<close> is the finite number \<open>q\<close>, and \<open>None\<close> is a
  value that is not a usable number: \<open>NaN\<close>, or \<open>undefined\<close>, which every arithmetic
  operator turns into \<open>NaN\<close> and which is falsy like \<open>NaN\<close>. A division by zero,
  whose IEEE result is \<open>NaN\<close> or an infinity, is \<open>None\<close> as well.

  Sums, and the products and quotients whose result is only displayed, are computed
  exactly (\<open>js_add\<close>, \<open>js_sub\<close>, \<open>js_mul\<close>, \<open>js_div\<close>); the code's doubles differ
  from them in the last place only. A product or quotient that reaches \<open>Math.round\<close>
  is computed as the code computes it, rounded to a double (\<open>js_fmul\<close>, \<open>js_fdiv\<close>),
  since there the last place decides the result.

  A string is the list of its UTF-16 code units.
\<close>

type_synonym jsnum = "rat option"

type_synonym jsstring = "16 word list"

definition js_add :: "jsnum \<Rightarrow> jsnum \<Rightarrow> jsnum" where
  "js_add a b = (case a of None \<Rightarrow> None | Some x \<Rightarrow> (case b of None \<Rightarrow> None | Some y \<Rightarrow> Some (x + y)))"

definition js_sub :: "jsnum \<Rightarrow> jsnum \<Rightarrow> jsnum" where
  "js_sub a b = (case a of None \<Rightarrow> None | Some x \<Rightarrow> (case b of None \<Rightarrow> None | Some y \<Rightarrow> Some (x - y)))"

definition js_mul :: "jsnum \<Rightarrow> jsnum \<Rightarrow> jsnum" where
  "js_mul a b = (case a of None \<Rightarrow> None | Some x \<Rightarrow> (case b of None \<Rightarrow> None | Some y \<Rightarrow> Some (x * y)))"

definition js_div :: "jsnum \<Rightarrow> jsnum \<Rightarrow> jsnum" where
  "js_div a b = (case a of None \<Rightarrow> None | Some x \<Rightarrow>
     (case b of None \<Rightarrow> None | Some y \<Rightarrow> if y = 0 then None else Some (x / y)))"

text \<open>\<open>a > b\<close> and \<open>a >= b\<close>: false as soon as one side is \<open>NaN\<close> or \<open>undefined\<close>.\<close>

definition js_gt :: "jsnum \<Rightarrow> jsnum \<Rightarrow> bool" where
  "js_gt a b = (case a of None \<Rightarrow> False | Some x \<Rightarrow> (case b of None \<Rightarrow> False | Some y \<Rightarrow> y < x))"

definition js_ge :: "jsnum \<Rightarrow> jsnum \<Rightarrow> bool" where
  "js_ge a b = (case a of None \<Rightarrow> False | Some x \<Rightarrow> (case b of None \<Rightarrow> False | Some y \<Rightarrow> y \<le> x))"

text \<open>Truthiness of a number: \<open>0\<close>, \<open>NaN\<close> and \<open>undefined\<close> are falsy.\<close>

definition truthy :: "jsnum \<Rightarrow> bool" where
  "truthy a = (case a of None \<Rightarrow> False | Some x \<Rightarrow> x \<noteq> 0)"

text \<open>\<open>a || b\<close> on numbers.\<close>

definition js_or :: "jsnum \<Rightarrow> jsnum \<Rightarrow> jsnum" where
  "js_or a b = (if truthy a then a else b)"

text \<open>\<open>Math.round\<close>: the nearest integer, a tie going towards plus infinity.\<close>

definition js_round :: "jsnum \<Rightarrow> jsnum" where
  "js_round a = (case a of None \<Rightarrow> None | Some x \<Rightarrow> Some (of_int \<lfloor>x + 1 / 2\<rfloor>))"

subsection \<open>Doubles\<close>

text \<open>
  \<open>fl x\<close> is the double nearest to \<open>x\<close>: 53 significant bits, a tie going to the even
  significand. The exponent is not bounded, so overflow and subnormal numbers are not
  modelled. \<open>binade x\<close> is the exponent \<open>e\<close> with \<open>2^e \<le> |x| < 2^(e+1)\<close>.
\<close>

function bit_count :: "int \<Rightarrow> nat" where
  "bit_count n = (if n \<le> 0 then 0 else Suc (bit_count (n div 2)))"
  by pat_completeness auto
termination
  by (relation "measure nat") auto

declare bit_count.simps [simp del]

definition pow2 :: "int \<Rightarrow> rat" where
  "pow2 k = (if 0 \<le> k then 2 ^ nat k else 1 / 2 ^ nat (- k))"

definition binade :: "rat \<Rightarrow> int" where
  "binade x =
     (if 1 \<le> \<bar>x\<bar> then int (bit_count \<lfloor>\<bar>x\<bar>\<rfloor>) - 1
      else let k = int (bit_count \<lfloor>1 / \<bar>x\<bar>\<rfloor>) - 1
           in if 1 / \<bar>x\<bar> = pow2 k then - k else - k - 1)"

definition round_half_even :: "rat \<Rightarrow> int" where
  "round_half_even m =
     (let n = \<lfloor>m\<rfloor>; d = m - of_int n
      in if d < 1 / 2 then n else if 1 / 2 < d then n + 1 else if even n then n else n + 1)"

definition fl :: "rat \<Rightarrow> rat" where
  "fl x = (if x = 0 then 0
     else let u = pow2 (binade x - 52) in of_int (round_half_even (x / u)) * u)"

text \<open>The product and the quotient of two doubles, as a double.\<close>

definition js_fmul :: "jsnum \<Rightarrow> jsnum \<Rightarrow> jsnum" where
  "js_fmul a b = (case a of None \<Rightarrow> None | Some x \<Rightarrow>
     (case b of None \<Rightarrow> None | Some y \<Rightarrow> Some (fl (x * y))))"


text \<open>
  The finite value of \<open>a || d\<close> for a finite default \<open>d\<close>; used to state results
  in closed form.
\<close>

definition num_or :: "rat \<Rightarrow> jsnum \<Rightarrow> rat" where
  "num_or d a = (case a of None \<Rightarrow> d | Some x \<Rightarrow> if x = 0 then d else x)"

section \<open>Data model\<close>

record Employee =
  employeeId :: jsstring
  name :: jsstring
  hourlyRate :: jsnum
  billingRate :: jsnum

record PayrollRecord =
  employeeId :: jsstring
  period :: jsstring
  workDays :: jsnum
  workHours :: jsnum
  overtimeHours :: jsnum
  overtimeOver60h :: jsnum
  nightHours :: jsnum
  holidayHours :: jsnum
  paidLeaveDays :: jsnum
  paidLeaveHours :: jsnum
  paidLeaveAmount :: jsnum
  transportAllowance :: jsnum
  nonBillableAllowances :: jsnum
  otherAllowances :: jsnum
  socialInsurance :: jsnum
  welfarePension :: jsnum
  employmentInsurance :: jsnum
  incomeTax :: jsnum
  residentTax :: jsnum
  rentDeduction :: jsnum
  utilitiesDeduction :: jsnum
  mealDeduction :: jsnum
  advancePayment :: jsnum
  yearEndAdjustment :: jsnum
  otherDeductions :: jsnum
  grossSalary :: jsnum
  billingAmount :: jsnum
  companySocialInsurance :: jsnum
  companyEmploymentInsurance :: jsnum
  companyWorkersComp :: jsnum
  totalCompanyCost :: jsnum
  grossProfit :: jsnum
  profitMargin :: jsnum

record Settings =
  target_margin :: jsnum
  employment_insurance_rate :: jsnum
  workers_comp_rate :: jsnum

text \<open>A record and an employee whose numeric fields are all \<open>0\<close>, to build examples from.\<close>

definition zero_record :: PayrollRecord where
  "zero_record = \<lparr> PayrollRecord.employeeId = [], period = [],
     workDays = Some 0, workHours = Some 0, overtimeHours = Some 0, overtimeOver60h = Some 0,
     nightHours = Some 0, holidayHours = Some 0, paidLeaveDays = Some 0, paidLeaveHours = Some 0,
     paidLeaveAmount = Some 0, transportAllowance = Some 0, nonBillableAllowances = Some 0,
     otherAllowances = Some 0, socialInsurance = Some 0, welfarePension = Some 0,
     employmentInsurance = Some 0, incomeTax = Some 0, residentTax = Some 0,
     rentDeduction = Some 0, utilitiesDeduction = Some 0, mealDeduction = Some 0,
     advancePayment = Some 0, yearEndAdjustment = Some 0, otherDeductions = Some 0,
     grossSalary = Some 0, billingAmount = Some 0, companySocialInsurance = Some 0,
     companyEmploymentInsurance = Some 0, companyWorkersComp = Some 0,
     totalCompanyCost = Some 0, grossProfit = Some 0, profitMargin = Some 0 \<rparr>"

definition zero_employee :: Employee where
  "zero_employee = \<lparr> Employee.employeeId = [], name = [], hourlyRate = Some 0, billingRate = Some 0 \<rparr>"

definition unset_settings :: Settings where
  "unset_settings = \<lparr> target_margin = None, employment_insurance_rate = None, workers_comp_rate = None \<rparr>"

section \<open>The payroll slip (\<open>PayrollSlipModal\<close>)\<close>

subsection \<open>Margin rate\<close>

text \<open>
  \<open>record.billingAmount > 0 ? (record.grossProfit / record.billingAmount) * 100 : 0\<close>,
  in the payroll slip (\<open>marginRate\<close>) and in the employee detail table
  (\<open>recordMargin\<close>).
\<close>

definition marginRate :: "PayrollRecord \<Rightarrow> jsnum" where
  "marginRate r = (if js_gt (billingAmount r) (Some 0)
     then js_mul (js_div (grossProfit r) (billingAmount r)) (Some 100)
     else Some 0)"

definition recordMargin :: "PayrollRecord \<Rightarrow> jsnum" where
  "recordMargin r = (if js_gt (billingAmount r) (Some 0)
     then js_mul (js_div (grossProfit r) (billingAmount r)) (Some 100)
     else Some 0)"

text \<open>
  The margin as the specification words it: the ratio times 100, and 0 when the billing
  amount is 0.
\<close>

definition profitMargin_spec :: "rat \<Rightarrow> rat \<Rightarrow> rat" where
  "profitMargin_spec gp ba = (if ba = 0 then 0 else gp / ba * 100)"

subsection \<open>Margin colour\<close>

text \<open>
  \<open>getMarginColor\<close> returns one of four colour sets; they are named after their
  text colour: emerald (on target), green (near target), amber (warning), red (critical).
\<close>

datatype margin_color = Emerald | Green | Amber | Red

definition getMarginColor :: "Settings \<Rightarrow> jsnum \<Rightarrow> margin_color" where
  "getMarginColor settings margin =
     (let target = js_or (target_margin settings) (Some 15) in
      if js_ge margin target then Emerald
      else if js_ge margin (js_sub target (Some 3)) then Green
      else if js_ge margin (js_sub target (Some 7)) then Amber
      else Red)"

text \<open>The banding as the specification words it, for a margin \<open>m\<close> and a target \<open>t\<close>.\<close>

definition margin_band_spec :: "rat \<Rightarrow> rat \<Rightarrow> margin_color" where
  "margin_band_spec t m =
     (if t \<le> m then Emerald
      else if t - 3 \<le> m \<and> m < t then Green
      else if t - 7 \<le> m \<and> m < t - 3 then Amber
      else Red)"

subsection \<open>Billing breakdown\<close>

definition baseBilling :: "PayrollRecord \<Rightarrow> Employee \<Rightarrow> jsnum" where
  "baseBilling r e = js_mul (js_or (workHours r) (Some 0)) (billingRate e)"

definition overtimeBilling :: "PayrollRecord \<Rightarrow> Employee \<Rightarrow> jsnum" where
  "overtimeBilling r e = js_mul (js_mul (js_or (overtimeHours r) (Some 0)) (billingRate e)) (Some (125 / 100))"

definition overtime60hBilling :: "PayrollRecord \<Rightarrow> Employee \<Rightarrow> jsnum" where
  "overtime60hBilling r e = js_mul (js_mul (js_or (overtimeOver60h r) (Some 0)) (billingRate e)) (Some (15 / 10))"

definition nightBilling :: "PayrollRecord \<Rightarrow> Employee \<Rightarrow> jsnum" where
  "nightBilling r e = js_mul (js_mul (js_or (nightHours r) (Some 0)) (billingRate e)) (Some (25 / 100))"

definition holidayBilling :: "PayrollRecord \<Rightarrow> Employee \<Rightarrow> jsnum" where
  "holidayBilling r e = js_mul (js_mul (js_or (holidayHours r) (Some 0)) (billingRate e)) (Some (135 / 100))"

text \<open>
  The lines of the billing column, in the order of the markup. A \<open>BillingRow\<close> carries
  its hours, rate, multiplier and value; the base row is always there, the others only
  when their hours are positive. The pass-through line shows \<open>record.otherAllowances\<close>.
\<close>

datatype bucket = Base | Overtime | Over60h | Night | Holiday

datatype billing_line =
    BillingRow bucket jsnum jsnum rat jsnum
  | PassThrough jsnum

fun line_value :: "billing_line \<Rightarrow> jsnum" where
  "line_value (BillingRow k hours rate multiplier v) = v"
| "line_value (PassThrough v) = v"

definition billingLines :: "PayrollRecord \<Rightarrow> Employee \<Rightarrow> billing_line list" where
  "billingLines r e =
     [BillingRow Base (workHours r) (billingRate e) 1 (baseBilling r e)]
     @ (if js_gt (js_or (overtimeHours r) (Some 0)) (Some 0)
        then [BillingRow Overtime (overtimeHours r) (billingRate e) (125 / 100) (overtimeBilling r e)] else [])
     @ (if js_gt (js_or (overtimeOver60h r) (Some 0)) (Some 0)
        then [BillingRow Over60h (overtimeOver60h r) (billingRate e) (15 / 10) (overtime60hBilling r e)] else [])
     @ (if js_gt (js_or (nightHours r) (Some 0)) (Some 0)
        then [BillingRow Night (nightHours r) (billingRate e) (25 / 100) (nightBilling r e)] else [])
     @ (if js_gt (js_or (holidayHours r) (Some 0)) (Some 0)
        then [BillingRow Holiday (holidayHours r) (billingRate e) (135 / 100) (holidayBilling r e)] else [])
     @ (if js_gt (js_or (otherAllowances r) (Some 0)) (Some 0)
        then [PassThrough (otherAllowances r)] else [])"

text \<open>The billing total under the lines is \<open>record.billingAmount\<close>.\<close>

definition billingTotal :: "PayrollRecord \<Rightarrow> jsnum" where
  "billingTotal r = billingAmount r"

text \<open>
  The billing total as the specification words it: the hour-bucket amounts plus the
  billable other allowances.
\<close>

definition billingAmount_spec :: "PayrollRecord \<Rightarrow> Employee \<Rightarrow> jsnum" where
  "billingAmount_spec r e =
     js_add (js_add (js_add (js_add (js_add (baseBilling r e) (overtimeBilling r e))
       (overtime60hBilling r e)) (nightBilling r e)) (holidayBilling r e))
       (js_or (otherAllowances r) (Some 0))"

text \<open>The sum of a list of numbers, as \<open>reduce((sum, x) => sum + x, 0)\<close> computes it.\<close>

definition js_sum :: "jsnum list \<Rightarrow> jsnum" where
  "js_sum xs = foldl js_add (Some 0) xs"

subsection \<open>Deductions\<close>

definition totalDeductions :: "PayrollRecord \<Rightarrow> jsnum" where
  "totalDeductions r =
     js_add (js_add (js_add (js_add (js_add
       (js_or (socialInsurance r) (Some 0))
       (js_or (welfarePension r) (Some 0)))
       (js_or (employmentInsurance r) (Some 0)))
       (js_or (incomeTax r) (Some 0)))
       (js_or (residentTax r) (Some 0)))
       (js_or (otherDeductions r) (Some 0))"

text \<open>
  The \<open>DeductionRow\<close>s of the deduction box, in the order of the markup, each with the
  name of the field it shows (the label on screen is Japanese) and the amount it prints,
  \<open>value || 0\<close>. The year-end adjustment has a row only when it is not 0.
\<close>

definition DeductionRow :: "string \<Rightarrow> jsnum \<Rightarrow> string \<times> jsnum" where
  "DeductionRow label v = (label, js_or v (Some 0))"

definition deductionRows :: "PayrollRecord \<Rightarrow> (string \<times> jsnum) list" where
  "deductionRows r =
     [DeductionRow ''socialInsurance'' (socialInsurance r),
      DeductionRow ''welfarePension'' (welfarePension r),
      DeductionRow ''employmentInsurance'' (employmentInsurance r),
      DeductionRow ''incomeTax'' (incomeTax r),
      DeductionRow ''residentTax'' (residentTax r),
      DeductionRow ''rentDeduction'' (rentDeduction r),
      DeductionRow ''utilitiesDeduction'' (utilitiesDeduction r),
      DeductionRow ''mealDeduction'' (mealDeduction r),
      DeductionRow ''advancePayment'' (advancePayment r)]
     @ (if js_or (yearEndAdjustment r) (Some 0) \<noteq> Some 0
        then [DeductionRow ''yearEndAdjustment'' (yearEndAdjustment r)] else [])
     @ [DeductionRow ''otherDeductions'' (otherDeductions r)]"

subsection \<open>Employer costs\<close>

text \<open>
  The default rates are the literals \<open>0.009\<close> and \<open>0.003\<close>, that is the doubles nearest
  to 9/1000 and 3/1000; the product that is rounded is the double product.
\<close>

definition companyHealthIns :: "PayrollRecord \<Rightarrow> jsnum" where
  "companyHealthIns r = js_or (socialInsurance r) (Some 0)"

definition companyWelfarePension :: "PayrollRecord \<Rightarrow> jsnum" where
  "companyWelfarePension r = js_or (welfarePension r) (Some 0)"

definition companySocialIns :: "PayrollRecord \<Rightarrow> jsnum" where
  "companySocialIns r =
     js_or (companySocialInsurance r) (js_add (companyHealthIns r) (companyWelfarePension r))"

definition empInsRate :: "Settings \<Rightarrow> jsnum" where
  "empInsRate settings = js_or (employment_insurance_rate settings) (Some (fl (9 / 1000)))"

definition companyEmploymentIns :: "Settings \<Rightarrow> PayrollRecord \<Rightarrow> jsnum" where
  "companyEmploymentIns settings r =
     js_or (companyEmploymentInsurance r)
       (js_round (js_fmul (js_or (grossSalary r) (Some 0)) (empInsRate settings)))"

definition workersCompRate :: "Settings \<Rightarrow> jsnum" where
  "workersCompRate settings = js_or (workers_comp_rate settings) (Some (fl (3 / 1000)))"

definition companyWorkersComp_slip :: "Settings \<Rightarrow> PayrollRecord \<Rightarrow> jsnum" where
  "companyWorkersComp_slip settings r =
     js_or (companyWorkersComp r)
       (js_round (js_fmul (js_or (grossSalary r) (Some 0)) (workersCompRate settings)))"

definition totalCompanyBenefits :: "Settings \<Rightarrow> PayrollRecord \<Rightarrow> jsnum" where
  "totalCompanyBenefits settings r =
     js_add (js_add (companySocialIns r) (companyEmploymentIns settings r))
       (companyWorkersComp_slip settings r)"

text \<open>The total cost shown: \<open>record.totalCompanyCost || (record.grossSalary + totalCompanyBenefits)\<close>.\<close>

definition totalCost_slip :: "Settings \<Rightarrow> PayrollRecord \<Rightarrow> jsnum" where
  "totalCost_slip settings r =
     js_or (totalCompanyCost r) (js_add (grossSalary r) (totalCompanyBenefits settings r))"


subsection \<open>Paid leave\<close>














section \<open>The store (\<open>appStore\<close>)\<close>

text \<open>
  The store holds the employees and the payroll records; \<open>generateDashboardStats\<close>
  and the sample data come from a module that is taken as a parameter here.
\<close>

record ProfitEntry =
  employeeId :: jsstring
  name :: jsstring
  profit :: jsnum

record MonthlySummary =
  period :: jsstring
  year :: int
  month :: int
  totalEmployees :: nat
  totalRevenue :: jsnum
  totalSalaryCost :: jsnum
  totalSocialInsurance :: jsnum
  totalEmploymentInsurance :: jsnum
  totalPaidLeaveCost :: jsnum
  totalTransportCost :: jsnum
  totalCompanyCost :: jsnum
  totalGrossProfit :: jsnum
  averageMargin :: jsnum
  topProfitEmployees :: "ProfitEntry list option"
  bottomProfitEmployees :: "ProfitEntry list option"

record 'd AppState =
  employees :: "Employee list"
  payrollRecords :: "PayrollRecord list"
  availablePeriods :: "jsstring list"
  selectedPeriod :: jsstring
  dashboardStats :: "'d option"

subsection \<open>Period lists\<close>

text \<open>\<open>Array.from(new Set(xs))\<close>: the elements of \<open>xs\<close> in the order of their first occurrence.\<close>

definition uniq :: "'a list \<Rightarrow> 'a list" where
  "uniq xs = foldl (\<lambda>seen x. if x \<in> set seen then seen else seen @ [x]) [] xs"

text \<open>
  \<open>Array.prototype.sort\<close> without a comparison function orders strings by their UTF-16
  code units; the sort is stable.
\<close>

fun str_less :: "jsstring \<Rightarrow> jsstring \<Rightarrow> bool" where
  "str_less [] [] = False"
| "str_less [] (y # ys) = True"
| "str_less (x # xs) [] = False"
| "str_less (x # xs) (y # ys) = (if x < y then True else if y < x then False else str_less xs ys)"

fun insert_str :: "jsstring \<Rightarrow> jsstring list \<Rightarrow> jsstring list" where
  "insert_str x [] = [x]"
| "insert_str x (y # ys) = (if str_less y x then y # insert_str x ys else x # y # ys)"

definition sort_strings :: "jsstring list \<Rightarrow> jsstring list" where
  "sort_strings xs = foldr insert_str xs []"

definition refreshDashboardStats ::
  "(Employee list \<Rightarrow> PayrollRecord list \<Rightarrow> 'd) \<Rightarrow> 'd AppState \<Rightarrow> 'd AppState" where
  "refreshDashboardStats generateDashboardStats st =
     st\<lparr>dashboardStats := Some (generateDashboardStats (employees st) (payrollRecords st))\<rparr>"

definition addPayrollRecords ::
  "(Employee list \<Rightarrow> PayrollRecord list \<Rightarrow> 'd) \<Rightarrow> PayrollRecord list \<Rightarrow> 'd AppState \<Rightarrow> 'd AppState" where
  "addPayrollRecords generateDashboardStats records st =
     (let currentRecords = payrollRecords st;
          newRecords = currentRecords @ records;
          periods = rev (sort_strings (uniq (map PayrollRecord.period newRecords)))
      in refreshDashboardStats generateDashboardStats
           (st\<lparr>payrollRecords := newRecords, availablePeriods := periods\<rparr>))"

definition loadSampleData ::
  "(Employee list \<Rightarrow> PayrollRecord list \<Rightarrow> 'd) \<Rightarrow> Employee list \<Rightarrow> PayrollRecord list
     \<Rightarrow> 'd AppState \<Rightarrow> 'd AppState" where
  "loadSampleData generateDashboardStats sampleEmployees samplePayrollRecords st =
     (let periods = rev (sort_strings (uniq (map PayrollRecord.period samplePayrollRecords)))
      in st\<lparr>employees := sampleEmployees, payrollRecords := samplePayrollRecords,
            availablePeriods := periods,
            selectedPeriod := (case periods of [] \<Rightarrow> [0x32, 0x30, 0x32, 0x35, 0x5E74, 0x31, 0x6708]
               | p # _ \<Rightarrow> if p = [] then [0x32, 0x30, 0x32, 0x35, 0x5E74, 0x31, 0x6708] else p),
            dashboardStats := Some (generateDashboardStats sampleEmployees samplePayrollRecords)\<rparr>)"

subsection \<open>Year and month of a period\<close>

text \<open>
  \<open>period.match(/(\d{4})\<dots>/)?.[1] || '2025'\<close> with the year sign U+5E74 after the four
  digits, and \<open>period.match(/(\d{1,2})\<dots>/)?.[1] || '1'\<close> with the month sign U+6708
  after one or two digits: the first group of the leftmost match, or the default when
  nothing matches. \<open>parseInt\<close> reads the decimal digits captured.
\<close>

definition is_digit :: "16 word \<Rightarrow> bool" where
  "is_digit c = (0x30 \<le> c \<and> c \<le> 0x39)"

fun match_year :: "jsstring \<Rightarrow> jsstring option" where
  "match_year (a # b # c # d # e # rest) =
     (if is_digit a \<and> is_digit b \<and> is_digit c \<and> is_digit d \<and> e = 0x5E74 then Some [a, b, c, d]
      else match_year (b # c # d # e # rest))"
| "match_year _ = None"

fun match_month :: "jsstring \<Rightarrow> jsstring option" where
  "match_month (a # b # c # rest) =
     (if is_digit a \<and> is_digit b \<and> c = 0x6708 then Some [a, b]
      else if is_digit a \<and> b = 0x6708 then Some [a]
      else match_month (b # c # rest))"
| "match_month [a, b] = (if is_digit a \<and> b = 0x6708 then Some [a] else None)"
| "match_month _ = None"

definition parseInt :: "jsstring \<Rightarrow> int" where
  "parseInt ds = foldl (\<lambda>n c. 10 * n + (uint c - 48)) 0 ds"

definition period_year :: "jsstring \<Rightarrow> int" where
  "period_year p = parseInt (case match_year p of None \<Rightarrow> [0x32, 0x30, 0x32, 0x35] | Some y \<Rightarrow> y)"

definition period_month :: "jsstring \<Rightarrow> int" where
  "period_month p = parseInt (case match_month p of None \<Rightarrow> [0x31] | Some m \<Rightarrow> m)"


subsection \<open>Monthly summary\<close>

text \<open>
  \<open>Array.prototype.sort\<close> with a comparison function: stable, an element going behind
  another only when the comparison is positive. The comparison functions of the summary
  subtract gross profits; when one of the gross profits is \<open>NaN\<close> they are not
  consistent and the language leaves the order to the engine. The two rankings of the
  summary are therefore \<open>None\<close> in that case: the model fixes no order for them.
\<close>

fun insert_by :: "('a \<Rightarrow> 'a \<Rightarrow> jsnum) \<Rightarrow> 'a \<Rightarrow> 'a list \<Rightarrow> 'a list" where
  "insert_by cmp x [] = [x]"
| "insert_by cmp x (y # ys) = (if js_gt (cmp x y) (Some 0) then y # insert_by cmp x ys else x # y # ys)"

definition sort_by :: "('a \<Rightarrow> 'a \<Rightarrow> jsnum) \<Rightarrow> 'a list \<Rightarrow> 'a list" where
  "sort_by cmp xs = foldr (insert_by cmp) xs []"

definition find_employee :: "Employee list \<Rightarrow> jsstring \<Rightarrow> Employee option" where
  "find_employee es i = find (\<lambda>e. Employee.employeeId e = i) es"

definition profit_entry :: "Employee list \<Rightarrow> PayrollRecord \<Rightarrow> ProfitEntry" where
  "profit_entry es r =
     \<lparr> ProfitEntry.employeeId = PayrollRecord.employeeId r,
       ProfitEntry.name = (case find_employee es (PayrollRecord.employeeId r) of None \<Rightarrow> []
          | Some e \<Rightarrow> if Employee.name e \<noteq> [] then Employee.name e else []),
       profit = grossProfit r \<rparr>"

definition calculateMonthlySummary :: "'d AppState \<Rightarrow> jsstring \<Rightarrow> MonthlySummary option" where
  "calculateMonthlySummary st p =
     (let periodRecords = filter (\<lambda>r. PayrollRecord.period r = p) (payrollRecords st) in
      if length periodRecords = 0 then None
      else
        let descending = sort_by (\<lambda>a b. js_sub (grossProfit b) (grossProfit a)) periodRecords;
            ascending = sort_by (\<lambda>a b. js_sub (grossProfit a) (grossProfit b)) descending
        in Some \<lparr>
          MonthlySummary.period = p,
          year = period_year p,
          month = period_month p,
          totalEmployees = length periodRecords,
          totalRevenue = foldl (\<lambda>sum r. js_add sum (billingAmount r)) (Some 0) periodRecords,
          totalSalaryCost = foldl (\<lambda>sum r. js_add sum (grossSalary r)) (Some 0) periodRecords,
          totalSocialInsurance =
            foldl (\<lambda>sum r. js_add sum (companySocialInsurance r)) (Some 0) periodRecords,
          totalEmploymentInsurance =
            foldl (\<lambda>sum r. js_add sum (companyEmploymentInsurance r)) (Some 0) periodRecords,
          totalPaidLeaveCost =
            foldl (\<lambda>sum r. js_add sum (js_mul (paidLeaveHours r)
              (case find_employee (employees st) (PayrollRecord.employeeId r) of None \<Rightarrow> Some 0
               | Some e \<Rightarrow> js_or (hourlyRate e) (Some 0)))) (Some 0) periodRecords,
          totalTransportCost = foldl (\<lambda>sum r. js_add sum (transportAllowance r)) (Some 0) periodRecords,
          MonthlySummary.totalCompanyCost =
            foldl (\<lambda>sum r. js_add sum (PayrollRecord.totalCompanyCost r)) (Some 0) periodRecords,
          totalGrossProfit = foldl (\<lambda>sum r. js_add sum (grossProfit r)) (Some 0) periodRecords,
          averageMargin =
            js_div (foldl (\<lambda>sum r. js_add sum (profitMargin r)) (Some 0) periodRecords)
              (Some (of_nat (length periodRecords))),
          topProfitEmployees =
            (if list_all (\<lambda>r. grossProfit r \<noteq> None) periodRecords
             then Some (map (profit_entry (employees st)) (take 5 descending)) else None),
          bottomProfitEmployees =
            (if list_all (\<lambda>r. grossProfit r \<noteq> None) periodRecords
             then Some (map (profit_entry (employees st)) (take 5 ascending)) else None) \<rparr>)"

text \<open>Example data: the periods of September and October 2025, and three small stores.\<close>

definition empty_store :: "'d AppState" where
  "empty_store = \<lparr> employees = [], payrollRecords = [], availablePeriods = [], selectedPeriod = [],
     dashboardStats = None \<rparr>"

definition period_2025_9 :: jsstring where
  "period_2025_9 = [0x32, 0x30, 0x32, 0x35, 0x5E74, 0x39, 0x6708]"

definition period_2025_10 :: jsstring where
  "period_2025_10 = [0x32, 0x30, 0x32, 0x35, 0x5E74, 0x31, 0x30, 0x6708]"

definition september_records :: "PayrollRecord list" where
  "september_records =
     [zero_record\<lparr>PayrollRecord.period := period_2025_9, PayrollRecord.employeeId := [0x41],
        billingAmount := Some 100, grossProfit := Some 50, profitMargin := Some 50\<rparr>,
      zero_record\<lparr>PayrollRecord.period := period_2025_10, PayrollRecord.employeeId := [0x41],
        billingAmount := Some 100, grossProfit := Some 50, profitMargin := Some 50\<rparr>,
      zero_record\<lparr>PayrollRecord.period := period_2025_9, PayrollRecord.employeeId := [0x42],
        billingAmount := Some 300, grossProfit := Some 30, profitMargin := Some 10\<rparr>]"

definition example_store :: "unit AppState" where
  "example_store = empty_store\<lparr>payrollRecords := september_records\<rparr>"

definition nan_records :: "PayrollRecord list" where
  "nan_records =
     [zero_record\<lparr>PayrollRecord.period := period_2025_9, PayrollRecord.employeeId := [0x41],
        billingAmount := Some 100, grossProfit := Some 50, profitMargin := Some 50\<rparr>,
      zero_record\<lparr>PayrollRecord.period := period_2025_9, PayrollRecord.employeeId := [0x42],
        billingAmount := Some 300, grossProfit := None, profitMargin := None\<rparr>]"

definition nan_store :: "unit AppState" where
  "nan_store = empty_store\<lparr>payrollRecords := nan_records\<rparr>"

section \<open>Verification\<close>

lemma js_or_num_or: "js_or a (Some d) = Some (num_or d a)"
  by (cases a) (simp_all add: js_or_def truthy_def num_or_def)

lemma js_or_cases:
  "a = Some v \<Longrightarrow> v \<noteq> 0 \<Longrightarrow> js_or a b = Some v"
  "a = None \<or> a = Some 0 \<Longrightarrow> js_or a b = b"
  by (auto simp add: js_or_def truthy_def)

subsection \<open>Margin rate\<close>

text \<open>
  C1, as stated, fails at a record with a negative billing amount: the guard is
  \<open>billingAmount > 0\<close>, so the slip shows 0 where the ratio is 50. It also fails at a
  record whose gross profit is not a number: with a positive billing amount the margin
  is then \<open>NaN\<close>.
\<close>

theorem marginRate_counterexample:
  "marginRate (zero_record\<lparr>grossProfit := Some (- 50), billingAmount := Some (- 100)\<rparr>)
     \<noteq> Some (profitMargin_spec (- 50) (- 100))
   \<and> marginRate (zero_record\<lparr>grossProfit := None, billingAmount := Some 100\<rparr>) = None"
  by (simp add: marginRate_def zero_record_def profitMargin_spec_def js_gt_def js_mul_def js_div_def)

text \<open>
  C1, amended: the margin is \<open>grossProfit / billingAmount * 100\<close> when the billing
  amount is a positive number, and 0 in every other case (zero, negative, or not a
  number); the division is never by zero, so the margin is a number whenever the gross
  profit is one. The employee detail table computes the same value.
\<close>

theorem marginRate_guarded:
  "marginRate r =
     (case billingAmount r of
        None \<Rightarrow> Some 0
      | Some b \<Rightarrow> if 0 < b then (case grossProfit r of None \<Rightarrow> None | Some g \<Rightarrow> Some (g / b * 100))
                  else Some 0)
   \<and> recordMargin r = marginRate r
   \<and> (grossProfit r \<noteq> None \<longrightarrow> marginRate r \<noteq> None)"
  by (auto simp add: marginRate_def recordMargin_def js_gt_def js_mul_def js_div_def
      split: option.splits)

theorem marginRate_guarded_witness:
  "marginRate (zero_record\<lparr>grossProfit := Some 61179, billingAmount := Some 258750\<rparr>)
     = Some (61179 / 258750 * 100)
   \<and> marginRate zero_record = Some 0"
  using marginRate_guarded [of "zero_record\<lparr>grossProfit := Some 61179, billingAmount := Some 258750\<rparr>",
      THEN conjunct1]
    marginRate_guarded [of zero_record, THEN conjunct1]
  by (simp add: zero_record_def)

subsection \<open>Margin colour\<close>

text \<open>
  C5, as stated, fails at a target of 0: \<open>settings.target_margin || 15\<close> replaces a
  target that is set to 0 by 15, so a margin of 5, on target for a target of 0, is shown
  as critical.
\<close>

theorem getMarginColor_counterexample:
  "getMarginColor (unset_settings\<lparr>target_margin := Some 0\<rparr>) (Some 5) = Red
   \<and> margin_band_spec 0 5 = Emerald"
  by (simp add: getMarginColor_def unset_settings_def margin_band_spec_def js_or_def truthy_def
      js_ge_def js_sub_def)

text \<open>
  C5, amended: with \<open>t\<close> the configured target, or 15 when the target is unset or 0,
  a margin \<open>m\<close> is on target when \<open>m \<ge> t\<close>, near target when \<open>t - 3 \<le> m < t\<close>,
  a warning when \<open>t - 7 \<le> m < t - 3\<close> and critical when \<open>m < t - 7\<close>.
\<close>

theorem getMarginColor_bands:
  assumes "t = (case target_margin s of None \<Rightarrow> 15 | Some x \<Rightarrow> if x = 0 then 15 else x)"
  shows "(getMarginColor s (Some m) = Emerald \<longleftrightarrow> t \<le> m)
    \<and> (getMarginColor s (Some m) = Green \<longleftrightarrow> t - 3 \<le> m \<and> m < t)
    \<and> (getMarginColor s (Some m) = Amber \<longleftrightarrow> t - 7 \<le> m \<and> m < t - 3)
    \<and> (getMarginColor s (Some m) = Red \<longleftrightarrow> m < t - 7)"
proof -
  have t: "js_or (target_margin s) (Some 15) = Some t"
    using assms by (simp add: js_or_num_or num_or_def)
  show ?thesis
    by (auto simp add: getMarginColor_def t js_ge_def js_sub_def Let_def split: if_splits)
qed

theorem getMarginColor_bands_witness:
  "getMarginColor unset_settings (Some 15) = Emerald
   \<and> getMarginColor unset_settings (Some 12) = Green
   \<and> getMarginColor unset_settings (Some 8) = Amber
   \<and> getMarginColor unset_settings (Some (79 / 10)) = Red"
  using getMarginColor_bands [of 15 unset_settings 15] getMarginColor_bands [of 15 unset_settings 12]
    getMarginColor_bands [of 15 unset_settings 8] getMarginColor_bands [of 15 unset_settings "79 / 10"]
  by (simp add: unset_settings_def)

subsection \<open>Employer costs\<close>


text \<open>
  Some doubles: 172500 and 8.5 are doubles, 0.1 and 0.009 are not, and a tie goes to the
  even significand.
\<close>

lemma fl_examples:
  "fl 172500 = 172500"
  "fl (17 / 2) = 17 / 2"
  "fl (1 / 10) = 3602879701896397 / 36028797018963968"
  "fl (9 / 1000) = 5188146770730811 / 576460752303423488"
  "fl 9007199254740993 = 9007199254740992"
  "fl 9007199254740995 = 9007199254740996"
  "fl (- (1 / 10)) = - fl (1 / 10)"
  by code_simp+




subsection \<open>Deductions\<close>

text \<open>
  C10: the deduction total of the slip is the sum of the social insurance, the welfare
  pension, the employment insurance, the income tax, the resident tax and the other
  deductions, each counted as 0 when missing. The rent, utilities, meal, advance payment
  and year-end adjustment fields have no influence on it, although the first four always
  have a row in the box and the year-end adjustment has one whenever it is not 0.
\<close>

theorem totalDeductions_sum:
  "totalDeductions r =
     Some (num_or 0 (socialInsurance r) + num_or 0 (welfarePension r)
       + num_or 0 (employmentInsurance r) + num_or 0 (incomeTax r)
       + num_or 0 (residentTax r) + num_or 0 (otherDeductions r))
   \<and> totalDeductions (r\<lparr>rentDeduction := a, utilitiesDeduction := b, mealDeduction := c,
        advancePayment := d, yearEndAdjustment := y\<rparr>) = totalDeductions r
   \<and> {(''rentDeduction'', js_or (rentDeduction r) (Some 0)),
       (''utilitiesDeduction'', js_or (utilitiesDeduction r) (Some 0)),
       (''mealDeduction'', js_or (mealDeduction r) (Some 0)),
       (''advancePayment'', js_or (advancePayment r) (Some 0))} \<subseteq> set (deductionRows r)
   \<and> ((''yearEndAdjustment'', js_or (yearEndAdjustment r) (Some 0)) \<in> set (deductionRows r)
        \<longleftrightarrow> num_or 0 (yearEndAdjustment r) \<noteq> 0)"
  by (simp add: totalDeductions_def js_or_num_or js_add_def deductionRows_def DeductionRow_def)

theorem totalDeductions_sum_witness:
  "totalDeductions (zero_record\<lparr>socialInsurance := Some 8000, welfarePension := Some 15000,
      incomeTax := None, rentDeduction := Some 30000\<rparr>) = Some 23000
   \<and> (''rentDeduction'', Some 30000) \<in> set (deductionRows (zero_record\<lparr>socialInsurance := Some 8000,
      welfarePension := Some 15000, incomeTax := None, rentDeduction := Some 30000\<rparr>))"
  using totalDeductions_sum [of "zero_record\<lparr>socialInsurance := Some 8000, welfarePension := Some 15000,
      incomeTax := None, rentDeduction := Some 30000\<rparr>"]
  by (simp add: zero_record_def num_or_def js_or_def truthy_def)

subsection \<open>Billing breakdown\<close>

lemma shown_iff: "js_gt (js_or a (Some 0)) (Some 0) \<longleftrightarrow> 0 < num_or 0 a"
  by (cases a) (simp_all add: js_or_def truthy_def js_gt_def num_or_def)

lemma shown_value: "0 < num_or 0 a \<Longrightarrow> a = Some (num_or 0 a)"
  by (cases a) (simp_all add: num_or_def split: if_splits)

lemma passthrough_line:
  "(if js_gt (js_or a (Some 0)) (Some 0) then [PassThrough a] else [])
     = (if 0 < num_or 0 a then [PassThrough (Some (num_or 0 a))] else [])"
  using shown_value [of a] by (simp add: shown_iff)

lemma bucket_amounts:
  assumes "billingRate e = Some b"
  shows "baseBilling r e = Some (num_or 0 (workHours r) * b)"
    and "overtimeBilling r e = Some (num_or 0 (overtimeHours r) * b * (125 / 100))"
    and "overtime60hBilling r e = Some (num_or 0 (overtimeOver60h r) * b * (15 / 10))"
    and "nightBilling r e = Some (num_or 0 (nightHours r) * b * (25 / 100))"
    and "holidayBilling r e = Some (num_or 0 (holidayHours r) * b * (135 / 100))"
  using assms
  by (simp_all add: baseBilling_def overtimeBilling_def overtime60hBilling_def nightBilling_def
      holidayBilling_def js_or_num_or js_mul_def)

lemma billingLines_sum:
  assumes "billingRate e = Some b"
  shows "js_sum (map line_value (billingLines r e)) =
       Some (num_or 0 (workHours r) * b
         + max 0 (num_or 0 (overtimeHours r)) * b * (125 / 100)
         + max 0 (num_or 0 (overtimeOver60h r)) * b * (15 / 10)
         + max 0 (num_or 0 (nightHours r)) * b * (25 / 100)
         + max 0 (num_or 0 (holidayHours r)) * b * (135 / 100)
         + max 0 (num_or 0 (otherAllowances r)))"
  unfolding billingLines_def passthrough_line
  unfolding shown_iff bucket_amounts [OF assms] js_sum_def
  by (simp add: js_add_def max_def)

lemma billingLines_allowances:
  "billingLines (r\<lparr>transportAllowance := t, nonBillableAllowances := n\<rparr>) e = billingLines r e"
  by (simp add: billingLines_def baseBilling_def overtimeBilling_def overtime60hBilling_def
      nightBilling_def holidayBilling_def)

text \<open>
  C4, as stated, fails at a record whose stored billing amount is not the sum of its
  bucket amounts: the total under the billing lines is \<open>record.billingAmount\<close> as
  stored, here 250000, while 160 hours at a billing rate of 1500 add up to 240000.
\<close>

theorem billingTotal_counterexample:
  "billingTotal (zero_record\<lparr>workHours := Some 160, billingAmount := Some 250000\<rparr>) = Some 250000
   \<and> billingAmount_spec (zero_record\<lparr>workHours := Some 160, billingAmount := Some 250000\<rparr>)
        (zero_employee\<lparr>billingRate := Some 1500\<rparr>) = Some 240000"
  by (simp add: billingTotal_def billingAmount_spec_def zero_record_def zero_employee_def
      baseBilling_def overtimeBilling_def overtime60hBilling_def nightBilling_def holidayBilling_def
      js_or_def truthy_def js_mul_def js_add_def)

text \<open>
  C4, amended: for an employee with billing rate \<open>b\<close>, the billing lines are priced at
  \<open>b\<close> with the multipliers 1 (base), 1.25 (overtime), 1.5 (overtime over 60 hours),
  0.25 (night) and 1.35 (holiday), missing hours counting as 0; the lines drawn (the base
  line always, another bucket or the other allowances only when positive) add up to the
  bucket amounts plus the other allowances at cost; no line depends on the transport
  allowance or the non-billable allowances. The billing total shown under the lines is
  the billing amount stored in the record; the slip does not recompute it from the lines.
\<close>

theorem billing_breakdown:
  assumes "billingRate e = Some b"
  shows "baseBilling r e = Some (num_or 0 (workHours r) * b)
    \<and> overtimeBilling r e = Some (num_or 0 (overtimeHours r) * b * (125 / 100))
    \<and> overtime60hBilling r e = Some (num_or 0 (overtimeOver60h r) * b * (15 / 10))
    \<and> nightBilling r e = Some (num_or 0 (nightHours r) * b * (25 / 100))
    \<and> holidayBilling r e = Some (num_or 0 (holidayHours r) * b * (135 / 100))
    \<and> js_sum (map line_value (billingLines r e)) =
         Some (num_or 0 (workHours r) * b
           + max 0 (num_or 0 (overtimeHours r)) * b * (125 / 100)
           + max 0 (num_or 0 (overtimeOver60h r)) * b * (15 / 10)
           + max 0 (num_or 0 (nightHours r)) * b * (25 / 100)
           + max 0 (num_or 0 (holidayHours r)) * b * (135 / 100)
           + max 0 (num_or 0 (otherAllowances r)))
    \<and> billingLines (r\<lparr>transportAllowance := t, nonBillableAllowances := n\<rparr>) e = billingLines r e
    \<and> billingTotal r = billingAmount r"
  using bucket_amounts [OF assms] billingLines_sum [OF assms] billingLines_allowances
  by (simp add: billingTotal_def)

theorem billing_breakdown_witness:
  "baseBilling (zero_record\<lparr>workHours := Some 160, overtimeHours := Some 10, otherAllowances := Some 5000\<rparr>)
     (zero_employee\<lparr>billingRate := Some 1500\<rparr>) = Some 240000
   \<and> overtimeBilling (zero_record\<lparr>workHours := Some 160, overtimeHours := Some 10, otherAllowances := Some 5000\<rparr>)
     (zero_employee\<lparr>billingRate := Some 1500\<rparr>) = Some 18750
   \<and> js_sum (map line_value (billingLines
       (zero_record\<lparr>workHours := Some 160, overtimeHours := Some 10, otherAllowances := Some 5000\<rparr>)
       (zero_employee\<lparr>billingRate := Some 1500\<rparr>))) = Some 263750"
  using billing_breakdown [of "zero_employee\<lparr>billingRate := Some 1500\<rparr>" 1500
      "zero_record\<lparr>workHours := Some 160, overtimeHours := Some 10, otherAllowances := Some 5000\<rparr>"
      "Some 0" "Some 0"]
  by (simp add: zero_record_def zero_employee_def num_or_def)

subsection \<open>Paid leave\<close>
















section \<open>Verification of the store\<close>

subsection \<open>Sums over the records of a period\<close>

lemma js_add_simps:
  "js_add (Some x) (Some y) = Some (x + y)" "js_add None b = None" "js_add a None = None"
  by (simp_all add: js_add_def split: option.splits)

lemma foldl_js_add_None: "foldl (\<lambda>sum r. js_add sum (f r)) None rs = None"
  by (induction rs) (simp_all add: js_add_simps)

lemma foldl_js_add_Some:
  "map f rs = map Some vs \<Longrightarrow> foldl (\<lambda>sum r. js_add sum (f r)) (Some a) rs = Some (a + sum_list vs)"
proof (induction rs arbitrary: a vs)
  case Nil
  then show ?case by simp
next
  case (Cons r rs)
  then obtain v vs' where vs: "vs = v # vs'" "f r = Some v" "map f rs = map Some vs'"
    by (cases vs) auto
  show ?case
    using Cons.IH [OF vs(3), of "a + v"] vs by (simp add: js_add_simps add.assoc)
qed

lemma foldl_js_add_None_iff:
  "foldl (\<lambda>sum r. js_add sum (f r)) (Some a) rs = None \<longleftrightarrow> (\<exists>r\<in>set rs. f r = None)"
proof (induction rs arbitrary: a)
  case Nil
  then show ?case by simp
next
  case (Cons r rs)
  show ?case
  proof (cases "f r")
    case None
    then show ?thesis by (simp add: js_add_simps foldl_js_add_None)
  next
    case (Some v)
    then show ?thesis using Cons.IH [of "a + v"] by (simp add: js_add_simps)
  qed
qed

lemma foldl_js_sum: "foldl (\<lambda>sum r. js_add sum (f r)) (Some 0) rs = js_sum (map f rs)"
  by (simp add: js_sum_def foldl_map)

lemma js_sum_None_iff: "js_sum xs = None \<longleftrightarrow> None \<in> set xs"
  using foldl_js_add_None_iff [of "\<lambda>x. x" 0 xs] by (auto simp add: js_sum_def)

lemma js_sum_Some: "js_sum (map Some vs) = Some (sum_list vs)"
  using foldl_js_add_Some [of "\<lambda>x. x" "map Some vs" vs 0] by (simp add: js_sum_def)

lemma calculateMonthlySummary_Some:
  assumes "calculateMonthlySummary st p = Some s"
  defines "rs \<equiv> filter (\<lambda>r. PayrollRecord.period r = p) (payrollRecords st)"
  shows "rs \<noteq> []"
    and "MonthlySummary.period s = p"
    and "totalEmployees s = length rs"
    and "totalRevenue s = foldl (\<lambda>sum r. js_add sum (billingAmount r)) (Some 0) rs"
    and "totalSalaryCost s = foldl (\<lambda>sum r. js_add sum (grossSalary r)) (Some 0) rs"
    and "totalSocialInsurance s = foldl (\<lambda>sum r. js_add sum (companySocialInsurance r)) (Some 0) rs"
    and "totalEmploymentInsurance s = foldl (\<lambda>sum r. js_add sum (companyEmploymentInsurance r)) (Some 0) rs"
    and "totalTransportCost s = foldl (\<lambda>sum r. js_add sum (transportAllowance r)) (Some 0) rs"
    and "MonthlySummary.totalCompanyCost s = foldl (\<lambda>sum r. js_add sum (PayrollRecord.totalCompanyCost r)) (Some 0) rs"
    and "totalGrossProfit s = foldl (\<lambda>sum r. js_add sum (grossProfit r)) (Some 0) rs"
    and "averageMargin s = js_div (foldl (\<lambda>sum r. js_add sum (profitMargin r)) (Some 0) rs) (Some (of_nat (length rs)))"
  using assms(1) unfolding rs_def calculateMonthlySummary_def Let_def
  by (auto split: if_splits)

lemma calculateMonthlySummary_returns:
  "filter (\<lambda>r. PayrollRecord.period r = p) (payrollRecords st) \<noteq> []
     \<Longrightarrow> \<exists>s. calculateMonthlySummary st p = Some s"
  by (simp add: calculateMonthlySummary_def Let_def)

lemma averageMargin_None_iff:
  assumes "calculateMonthlySummary st p = Some s"
  shows "averageMargin s = None \<longleftrightarrow>
    (\<exists>r\<in>set (filter (\<lambda>r. PayrollRecord.period r = p) (payrollRecords st)). profitMargin r = None)"
proof -
  let ?rs = "filter (\<lambda>r. PayrollRecord.period r = p) (payrollRecords st)"
  note facts = calculateMonthlySummary_Some [OF assms]
  have "?rs \<noteq> []"
    using facts(1) .
  then show ?thesis
    unfolding facts(11) using foldl_js_add_None_iff [of profitMargin 0 ?rs]
    by (cases "foldl (\<lambda>sum r. js_add sum (profitMargin r)) (Some 0) ?rs") (simp_all add: js_div_def)
qed

lemma averageMargin_Some:
  assumes "calculateMonthlySummary st p = Some s"
    and "map profitMargin (filter (\<lambda>r. PayrollRecord.period r = p) (payrollRecords st)) = map Some ms"
  shows "averageMargin s = Some (sum_list ms / of_nat (length ms))"
proof -
  let ?rs = "filter (\<lambda>r. PayrollRecord.period r = p) (payrollRecords st)"
  have len: "length ms = length ?rs"
    using assms(2) by (metis length_map)
  have ne: "?rs \<noteq> []"
    using calculateMonthlySummary_Some(1) [OF assms(1)] .
  have "averageMargin s = js_div (foldl (\<lambda>sum r. js_add sum (profitMargin r)) (Some 0) ?rs) (Some (of_nat (length ?rs)))"
    using calculateMonthlySummary_Some(11) [OF assms(1)] .
  also have "\<dots> = js_div (Some (sum_list ms)) (Some (of_nat (length ms)))"
    using foldl_js_add_Some [OF assms(2), of 0] len by simp
  also have "\<dots> = Some (sum_list ms / of_nat (length ms))"
    using ne len by (simp add: js_div_def)
  finally show ?thesis .
qed

lemmas example_defs = example_store_def nan_store_def empty_store_def september_records_def
  nan_records_def period_2025_9_def period_2025_10_def

subsection \<open>Monthly summary\<close>

text \<open>
  C7: the monthly summary is absent exactly when no payroll record has the period asked
  for; a summary that is returned is for that period and counts at least one record,
  namely all the records of the period.
\<close>

theorem calculateMonthlySummary_null:
  "(calculateMonthlySummary st p = None \<longleftrightarrow> (\<forall>r\<in>set (payrollRecords st). PayrollRecord.period r \<noteq> p))
   \<and> (\<forall>s. calculateMonthlySummary st p = Some s \<longrightarrow>
        MonthlySummary.period s = p \<and> 0 < totalEmployees s
        \<and> totalEmployees s = length (filter (\<lambda>r. PayrollRecord.period r = p) (payrollRecords st)))"
proof -
  have "calculateMonthlySummary st p = None \<longleftrightarrow> filter (\<lambda>r. PayrollRecord.period r = p) (payrollRecords st) = []"
    by (simp add: calculateMonthlySummary_def Let_def)
  then have "calculateMonthlySummary st p = None \<longleftrightarrow> (\<forall>r\<in>set (payrollRecords st). PayrollRecord.period r \<noteq> p)"
    by (simp add: filter_empty_conv)
  then show ?thesis
    using calculateMonthlySummary_Some(1-3) [of st p] by auto
qed

theorem calculateMonthlySummary_null_witness:
  "calculateMonthlySummary example_store [] = None
   \<and> calculateMonthlySummary example_store period_2025_9 \<noteq> None"
  using calculateMonthlySummary_null [of example_store "[]"]
    calculateMonthlySummary_null [of example_store period_2025_9]
  by (simp add: example_defs)

text \<open>
  C8: when at least one record has the period asked for, a summary is returned, and its
  average margin is the arithmetic mean of the stored \<open>profitMargin\<close> fields of the
  records of the period: their sum over their number when they are the numbers \<open>ms\<close>,
  and \<open>NaN\<close> when one of them is \<open>NaN\<close>. It is not recomputed from the totals: the
  witness below is a store where this mean is 30 while the margin of the period totals
  is 20.
\<close>

theorem averageMargin_mean:
  assumes "rs = filter (\<lambda>r. PayrollRecord.period r = p) (payrollRecords st)" and "rs \<noteq> []"
  shows "\<exists>s. calculateMonthlySummary st p = Some s
    \<and> (\<forall>ms. map profitMargin rs = map Some ms \<longrightarrow>
          averageMargin s = Some (sum_list ms / of_nat (length rs)))
    \<and> ((\<exists>r\<in>set rs. profitMargin r = None) \<longrightarrow> averageMargin s = None)"
proof -
  obtain s where s: "calculateMonthlySummary st p = Some s"
    using calculateMonthlySummary_returns assms by blast
  have "averageMargin s = Some (sum_list ms / of_nat (length rs))"
    if "map profitMargin rs = map Some ms" for ms
  proof -
    have "length ms = length rs"
      using that by (metis length_map)
    then show ?thesis
      using averageMargin_Some [OF s that [unfolded assms(1)]] by simp
  qed
  moreover have "(\<exists>r\<in>set rs. profitMargin r = None) \<longrightarrow> averageMargin s = None"
    using averageMargin_None_iff [OF s] assms(1) by simp
  ultimately show ?thesis
    using s by blast
qed

theorem averageMargin_mean_witness:
  "map_option averageMargin (calculateMonthlySummary example_store period_2025_9) = Some (Some 30)
   \<and> map_option (\<lambda>s. js_mul (js_div (totalGrossProfit s) (totalRevenue s)) (Some 100))
        (calculateMonthlySummary example_store period_2025_9) = Some (Some 20)"
proof -
  define rs where "rs = filter (\<lambda>r. PayrollRecord.period r = period_2025_9) (payrollRecords example_store)"
  have ne: "rs \<noteq> []"
    by (simp add: rs_def example_defs)
  have ms: "map profitMargin rs = map Some [50, 10]"
    by (simp add: rs_def example_defs)
  obtain s where s: "calculateMonthlySummary example_store period_2025_9 = Some s"
    and mean: "\<forall>ms. map profitMargin rs = map Some ms \<longrightarrow>
      averageMargin s = Some (sum_list ms / of_nat (length rs))"
    using averageMargin_mean [OF rs_def ne] by (elim exE conjE) (rule that)
  have "length rs = length [50, 10 :: rat]"
    using ms by (metis length_map)
  then have avg: "averageMargin s = Some 30"
    using mean [rule_format, of "[50, 10]"] ms by simp
  have "totalGrossProfit s = Some 80" "totalRevenue s = Some 400"
    using calculateMonthlySummary_Some(10) [OF s] calculateMonthlySummary_Some(4) [OF s]
    by (simp_all add: example_defs js_add_simps)
  then have "js_mul (js_div (totalGrossProfit s) (totalRevenue s)) (Some 100) = Some 20"
    by (simp add: js_div_def js_mul_def)
  with s avg show ?thesis
    by simp
qed

text \<open>
  C9, as stated, fails at a period with two records of which the second carries \<open>NaN\<close>
  as gross profit and margin: the summary counts both records, and its total gross profit
  and average margin are \<open>NaN\<close>. Nothing in \<open>calculateMonthlySummary\<close> isolates or
  drops a record.
\<close>

theorem summary_isolation_counterexample:
  "map_option totalEmployees (calculateMonthlySummary nan_store period_2025_9) = Some 2
   \<and> map_option totalGrossProfit (calculateMonthlySummary nan_store period_2025_9) = Some None
   \<and> map_option averageMargin (calculateMonthlySummary nan_store period_2025_9) = Some None"
proof -
  have "calculateMonthlySummary nan_store period_2025_9 \<noteq> None"
    by (simp add: calculateMonthlySummary_def Let_def example_defs)
  then obtain s where s: "calculateMonthlySummary nan_store period_2025_9 = Some s"
    by blast
  have "totalEmployees s = 2" "totalGrossProfit s = None" "averageMargin s = None"
    using calculateMonthlySummary_Some(3) [OF s] calculateMonthlySummary_Some(10) [OF s]
      calculateMonthlySummary_Some(11) [OF s]
    by (simp_all add: example_defs js_add_simps js_div_def)
  with s show ?thesis
    by simp
qed

text \<open>
  C9, amended: when at least one record has the period asked for, a summary is returned
  that covers every record of the period, none is excluded: the number of employees is
  the number of records of the period, each total is the sum of its field over all of
  them, and the average margin is the sum of their margins over their number. A sum is
  \<open>NaN\<close> exactly when one of its terms is \<open>NaN\<close> or \<open>undefined\<close>, and the sum of the
  numbers otherwise. The computation is a total function: it raises nothing.
\<close>

theorem summary_without_isolation:
  assumes "rs = filter (\<lambda>r. PayrollRecord.period r = p) (payrollRecords st)" and "rs \<noteq> []"
  shows "\<exists>s. calculateMonthlySummary st p = Some s
    \<and> totalEmployees s = length rs
    \<and> totalRevenue s = js_sum (map billingAmount rs)
    \<and> totalSalaryCost s = js_sum (map grossSalary rs)
    \<and> totalSocialInsurance s = js_sum (map companySocialInsurance rs)
    \<and> totalEmploymentInsurance s = js_sum (map companyEmploymentInsurance rs)
    \<and> totalPaidLeaveCost s =
        js_sum (map (\<lambda>r. js_mul (paidLeaveHours r)
          (case find_employee (employees st) (PayrollRecord.employeeId r) of None \<Rightarrow> Some 0
           | Some e \<Rightarrow> js_or (hourlyRate e) (Some 0))) rs)
    \<and> totalTransportCost s = js_sum (map transportAllowance rs)
    \<and> MonthlySummary.totalCompanyCost s = js_sum (map PayrollRecord.totalCompanyCost rs)
    \<and> totalGrossProfit s = js_sum (map grossProfit rs)
    \<and> averageMargin s = js_div (js_sum (map profitMargin rs)) (Some (of_nat (length rs)))
    \<and> (averageMargin s = None \<longleftrightarrow> (\<exists>r\<in>set rs. profitMargin r = None))
    \<and> (\<forall>xs. js_sum xs = None \<longleftrightarrow> None \<in> set xs)
    \<and> (\<forall>vs. js_sum (map Some vs) = Some (sum_list vs))"
proof -
  obtain s where s: "calculateMonthlySummary st p = Some s"
    using calculateMonthlySummary_returns assms by blast
  have paid: "totalPaidLeaveCost s =
      js_sum (map (\<lambda>r. js_mul (paidLeaveHours r)
        (case find_employee (employees st) (PayrollRecord.employeeId r) of None \<Rightarrow> Some 0
         | Some e \<Rightarrow> js_or (hourlyRate e) (Some 0))) rs)"
    using s assms(2) unfolding assms(1) calculateMonthlySummary_def Let_def foldl_js_sum
    by (auto split: if_splits)
  note facts = calculateMonthlySummary_Some [OF s, folded assms(1), unfolded foldl_js_sum]
  have avg: "averageMargin s = None \<longleftrightarrow> (\<exists>r\<in>set rs. profitMargin r = None)"
    using averageMargin_None_iff [OF s] assms(1) by simp
  have "totalEmployees s = length rs
    \<and> totalRevenue s = js_sum (map billingAmount rs)
    \<and> totalSalaryCost s = js_sum (map grossSalary rs)
    \<and> totalSocialInsurance s = js_sum (map companySocialInsurance rs)
    \<and> totalEmploymentInsurance s = js_sum (map companyEmploymentInsurance rs)
    \<and> totalPaidLeaveCost s =
        js_sum (map (\<lambda>r. js_mul (paidLeaveHours r)
          (case find_employee (employees st) (PayrollRecord.employeeId r) of None \<Rightarrow> Some 0
           | Some e \<Rightarrow> js_or (hourlyRate e) (Some 0))) rs)
    \<and> totalTransportCost s = js_sum (map transportAllowance rs)
    \<and> MonthlySummary.totalCompanyCost s = js_sum (map PayrollRecord.totalCompanyCost rs)
    \<and> totalGrossProfit s = js_sum (map grossProfit rs)
    \<and> averageMargin s = js_div (js_sum (map profitMargin rs)) (Some (of_nat (length rs)))
    \<and> (averageMargin s = None \<longleftrightarrow> (\<exists>r\<in>set rs. profitMargin r = None))
    \<and> (\<forall>xs. js_sum xs = None \<longleftrightarrow> None \<in> set xs)
    \<and> (\<forall>vs. js_sum (map Some vs) = Some (sum_list vs))"
    using facts(3-11) paid avg js_sum_None_iff js_sum_Some by simp
  then show ?thesis
    by (intro exI [of _ s] conjI [OF s])
qed

theorem summary_without_isolation_witness:
  "map_option totalEmployees (calculateMonthlySummary nan_store period_2025_9) = Some 2
   \<and> map_option totalRevenue (calculateMonthlySummary nan_store period_2025_9) = Some (Some 400)
   \<and> map_option totalGrossProfit (calculateMonthlySummary nan_store period_2025_9) = Some None"
proof -
  have rs: "nan_records = filter (\<lambda>r. PayrollRecord.period r = period_2025_9) (payrollRecords nan_store)"
    by (simp add: example_defs)
  have ne: "nan_records \<noteq> []"
    by (simp add: nan_records_def)
  obtain s where s: "calculateMonthlySummary nan_store period_2025_9 = Some s"
    and employees: "totalEmployees s = length nan_records"
    and revenue: "totalRevenue s = js_sum (map billingAmount nan_records)"
    and profit: "totalGrossProfit s = js_sum (map grossProfit nan_records)"
    and nan: "\<forall>xs. js_sum xs = None \<longleftrightarrow> None \<in> set xs"
    and numbers: "\<forall>vs. js_sum (map Some vs) = Some (sum_list vs)"
    using summary_without_isolation [OF rs ne] by (elim exE conjE) (rule that)
  have "map billingAmount nan_records = map Some [100, 300]"
    by (simp add: nan_records_def)
  then have "totalRevenue s = Some 400"
    using revenue numbers [rule_format, of "[100, 300]"] by simp
  moreover have "None \<in> set (map grossProfit nan_records)"
    by (simp add: nan_records_def)
  then have "totalGrossProfit s = None"
    using profit nan by simp
  moreover have "totalEmployees s = 2"
    using employees by (simp add: nan_records_def)
  ultimately show ?thesis
    using s by simp
qed

subsection \<open>Available periods\<close>

text \<open>
  C6 asks for every period sort to compare year and month as numbers. The store sorts
  the available periods with the default string order and reverses the result: after
  records for September and October 2025 are added to an empty store, September comes
  first in the newest-first list, although the year and month that the store itself
  reads from the two periods are 2025/9 and 2025/10. Loading sample data sorts the same way.
\<close>

theorem addPayrollRecords_period_order:
  "availablePeriods (addPayrollRecords (\<lambda>es rs. ())
      [zero_record\<lparr>PayrollRecord.period := period_2025_9\<rparr>,
       zero_record\<lparr>PayrollRecord.period := period_2025_10\<rparr>] empty_store)
     = [period_2025_9, period_2025_10]
   \<and> availablePeriods (loadSampleData (\<lambda>es rs. ()) []
      [zero_record\<lparr>PayrollRecord.period := period_2025_9\<rparr>,
       zero_record\<lparr>PayrollRecord.period := period_2025_10\<rparr>] empty_store)
     = [period_2025_9, period_2025_10]
   \<and> period_year period_2025_9 = 2025 \<and> period_month period_2025_9 = 9
   \<and> period_year period_2025_10 = 2025 \<and> period_month period_2025_10 = 10"
  by (simp add: addPayrollRecords_def loadSampleData_def refreshDashboardStats_def Let_def
      empty_store_def sort_strings_def uniq_def period_2025_9_def period_2025_10_def
      period_year_def period_month_def parseInt_def is_digit_def)

end
